theory Spec2Isabelle
  imports Main
begin

section \<open>JavaScript strings\<close>

text \<open>
  The service works on JavaScript strings.  They are modelled as \<^typ>\<open>string\<close>, a
  list of \<^typ>\<open>char\<close>, each \<^typ>\<open>char\<close> read as one code unit in the range
  U+0000 .. U+00FF.  On this range \<^verbatim>\<open>length\<close> is the list length, and
  \<^verbatim>\<open>toLowerCase\<close> stays inside the range.
\<close>

text \<open>
  The white space of \<^verbatim>\<open>String.prototype.trim\<close> and of the regular expression class
  \<^verbatim>\<open>\s\<close>: TAB, LF, VT, FF, CR, SPACE and NBSP are the members below U+0100.
\<close>

definition isWhiteSpace :: "char \<Rightarrow> bool" where
  "isWhiteSpace c = (of_char c \<in> set [9, 10, 11, 12, 13, 32, 160 :: nat])"

text \<open>
  \<^verbatim>\<open>toLowerCase\<close>: A..Z and the upper-case letters U+00C0 .. U+00DE (without the
  multiplication sign U+00D7) move up by 32; every other code unit stays.
\<close>

definition toLowerChar :: "char \<Rightarrow> char" where
  "toLowerChar c =
     (let n = (of_char c :: nat)
      in if (65 \<le> n \<and> n \<le> 90) \<or> (192 \<le> n \<and> n \<le> 222 \<and> n \<noteq> 215)
         then char_of (n + 32) else c)"

definition toLowerCase :: "string \<Rightarrow> string" where
  "toLowerCase s = map toLowerChar s"

definition trim :: "string \<Rightarrow> string" where
  "trim s = rev (dropWhile isWhiteSpace (rev (dropWhile isWhiteSpace s)))"

fun startsWith :: "string \<Rightarrow> string \<Rightarrow> bool" where
  "startsWith s [] = True"
| "startsWith [] (p # ps) = False"
| "startsWith (c # cs) (p # ps) = (c = p \<and> startsWith cs ps)"

text \<open>\<^verbatim>\<open>s.includes(t)\<close>: \<open>t\<close> occurs in \<open>s\<close> as a contiguous substring.\<close>

fun str_includes :: "string \<Rightarrow> string \<Rightarrow> bool" where
  "str_includes [] t = (t = [])"
| "str_includes (c # cs) t = (startsWith (c # cs) t \<or> str_includes cs t)"

text \<open>
  \<^verbatim>\<open>s.split(/\s+/)\<close>: the pieces between maximal runs of white space.  A run at the
  start or at the end of \<open>s\<close> leaves an empty piece there, and the empty string splits
  into one empty piece.  The flag says that the previous character was white space.
\<close>

fun splitWs :: "bool \<Rightarrow> string \<Rightarrow> string list" where
  "splitWs inRun [] = [[]]"
| "splitWs inRun (c # cs) =
     (if isWhiteSpace c then (if inRun then splitWs True cs else [] # splitWs True cs)
      else (case splitWs False cs of
              [] \<Rightarrow> [[c]]
            | t # ts \<Rightarrow> (c # t) # ts))"

definition split_whitespace :: "string \<Rightarrow> string list" where
  "split_whitespace s = splitWs False s"

text \<open>\<^verbatim>\<open>/^[a-zA-Z]+$/.test(word)\<close>.\<close>

definition isAsciiLetter :: "char \<Rightarrow> bool" where
  "isAsciiLetter c =
     (let n = (of_char c :: nat) in (97 \<le> n \<and> n \<le> 122) \<or> (65 \<le> n \<and> n \<le> 90))"

definition test_alpha :: "string \<Rightarrow> bool" where
  "test_alpha w = (w \<noteq> [] \<and> list_all isAsciiLetter w)"

section \<open>Errors\<close>

text \<open>
  The services throw plain \<^verbatim>\<open>Error\<close> objects; one constructor stands for each
  message text of \<^verbatim>\<open>RecognitionService\<close>.  Three more stand for what the service does
  not throw itself but lets through: the two refusals of the store that the shipped
  schema causes, and the \<^verbatim>\<open>SyntaxError\<close> of \<^verbatim>\<open>JSON.parse\<close>.
\<close>

datatype error =
    MessageRequired             \<comment> \<open>'Message is required'\<close>
  | MessageTooLong              \<comment> \<open>'Message cannot exceed 500 characters'\<close>
  | InappropriateContent        \<comment> \<open>'Message contains inappropriate content'\<close>
  | InvalidVisibility           \<comment> \<open>'Invalid visibility setting. Must be PUBLIC, PRIVATE, or ANONYMOUS'\<close>
  | RecipientRequired           \<comment> \<open>'Recipient ID is required'\<close>
  | CannotRecognizeYourself     \<comment> \<open>'Cannot recognize yourself'\<close>
  | RecipientNotFound           \<comment> \<open>'Recipient not found'\<close>
  | NotFoundOrDenied            \<comment> \<open>'Recognition not found or access denied'\<close>
  | RecognitionNotFound         \<comment> \<open>'Recognition not found'\<close>
  | UpdateOwnOnly               \<comment> \<open>'You can only update your own recognitions'\<close>
  | DeleteOwnOnly               \<comment> \<open>'You can only delete your own recognitions'\<close>
  | NoFieldsToUpdate            \<comment> \<open>'No fields to update'\<close>
  | DbInvalidEnumValue          \<comment> \<open>store: invalid input value for enum visibility\<close>
  | DbUndefinedColumn           \<comment> \<open>store: column updated_at of relation recognitions does not exist\<close>
  | JsonSyntaxError             \<comment> \<open>\<^verbatim>\<open>SyntaxError\<close> thrown by \<^verbatim>\<open>JSON.parse\<close>\<close>

text \<open>
  The specification sorts the failures into classes (its section on error handling):
  validation errors for malformed input (message empty, too long or blocked, illegal
  visibility, missing recipient), a conflict error for self-recognition, permission
  errors for a failed ownership check, not-found errors for a record that is absent
  or not readable, and persistence errors for a store call that failed.  \<open>classify\<close>
  follows that wording; the syntax error of \<^verbatim>\<open>JSON.parse\<close> has no class there.
\<close>

datatype error_class =
  ValidationError | ConflictError | PermissionError | NotFoundError | PersistenceError
  | UnclassifiedError

fun classify :: "error \<Rightarrow> error_class" where
  "classify MessageRequired = ValidationError"
| "classify MessageTooLong = ValidationError"
| "classify InappropriateContent = ValidationError"
| "classify InvalidVisibility = ValidationError"
| "classify RecipientRequired = ValidationError"
| "classify NoFieldsToUpdate = ValidationError"
| "classify RecipientNotFound = ValidationError"
| "classify CannotRecognizeYourself = ConflictError"
| "classify UpdateOwnOnly = PermissionError"
| "classify DeleteOwnOnly = PermissionError"
| "classify NotFoundOrDenied = NotFoundError"
| "classify RecognitionNotFound = NotFoundError"
| "classify DbInvalidEnumValue = PersistenceError"
| "classify DbUndefinedColumn = PersistenceError"
| "classify JsonSyntaxError = UnclassifiedError"

section \<open>Input validation\<close>

text \<open>
  \<^verbatim>\<open>validateMessage\<close>: the emptiness test looks at the trimmed text, the length
  test at the text as given, the two content tests at the lower-cased text.
\<close>

definition blockedWords :: "string list" where
  "blockedWords = [''offensive'', ''inappropriate'', ''hate'']"

definition validateMessage :: "string \<Rightarrow> error + unit" where
  "validateMessage msg =
     (if msg = [] \<or> length (trim msg) = 0 then Inl MessageRequired
      else if length msg > 500 then Inl MessageTooLong
      else if str_includes (toLowerCase msg) ''spam'' then Inl InappropriateContent
      else if list_ex (\<lambda>w. str_includes (toLowerCase msg) w) blockedWords
           then Inl InappropriateContent
      else Inr ())"

definition validVisibilities :: "string list" where
  "validVisibilities = [''PUBLIC'', ''PRIVATE'', ''ANONYMOUS'']"

definition validateVisibility :: "string \<Rightarrow> error + unit" where
  "validateVisibility vis =
     (if vis \<notin> set validVisibilities then Inl InvalidVisibility else Inr ())"

definition validateRecipientSenderID :: "string \<Rightarrow> string \<Rightarrow> error + unit" where
  "validateRecipientSenderID recipient sender =
     (if recipient = [] then Inl RecipientRequired
      else if recipient = sender then Inl CannotRecognizeYourself
      else Inr ())"

section \<open>Keyword extraction\<close>

definition stopWords :: "string list" where
  "stopWords = [''this'', ''that'', ''with'', ''have'', ''will'', ''been'', ''from'', ''they'',
     ''were'', ''said'', ''each'', ''which'', ''their'', ''time'', ''would'']"

definition keep_word :: "string \<Rightarrow> bool" where
  "keep_word w = (length w > 3 \<and> w \<notin> set stopWords \<and> test_alpha w)"

text \<open>
  \<^verbatim>\<open>extractKeywords\<close>; \<open>None\<close> is a \<^verbatim>\<open>null\<close> or \<^verbatim>\<open>undefined\<close> message, which the
  guard \<^verbatim>\<open>!message\<close> answers like the empty string.
\<close>

definition extractKeywords :: "string option \<Rightarrow> string list" where
  "extractKeywords m =
     (case m of
        None \<Rightarrow> []
      | Some msg \<Rightarrow>
          if msg = [] then []
          else take 5 (filter keep_word (split_whitespace (toLowerCase msg))))"

text \<open>
  The extraction as the specification words it, for comparison with the code: the
  tokens of a text are its maximal runs of characters that are not white space; a token
  qualifies when it is longer than 3 characters, made of letters only and no stop word;
  the result is the first 5 qualifying tokens of the lower-cased text, in their order.
\<close>

function spec_tokens :: "string \<Rightarrow> string list" where
  "spec_tokens [] = []"
| "spec_tokens (c # cs) =
     (if isWhiteSpace c then spec_tokens cs
      else takeWhile (\<lambda>x. \<not> isWhiteSpace x) (c # cs)
             # spec_tokens (dropWhile (\<lambda>x. \<not> isWhiteSpace x) cs))"
  by pat_completeness auto
termination
  by (relation "measure length") (auto simp: less_Suc_eq_le length_dropWhile_le)

definition spec_qualifies :: "string \<Rightarrow> bool" where
  "spec_qualifies w =
     (3 < length w \<and> list_all isAsciiLetter w \<and> w \<notin> set stopWords)"

definition spec_extract :: "string \<Rightarrow> string list" where
  "spec_extract msg = take 5 (filter spec_qualifies (spec_tokens (toLowerCase msg)))"

section \<open>Role hierarchy\<close>

text \<open>
  \<^verbatim>\<open>UserService.hasRole\<close> reads the level of a role from an object literal,
  \<^verbatim>\<open>roleHierarchy[role] || 0\<close>.  A role that is one of the four keys reads its number.
  A role that names a member of \<^verbatim>\<open>Object.prototype\<close> reads that member, a function or
  an object, which is truthy and so is kept.  Any other role reads \<^verbatim>\<open>undefined\<close> and
  becomes 0.
\<close>

definition roleHierarchy :: "(string \<times> nat) list" where
  "roleHierarchy = [(''EMPLOYEE'', 1), (''MANAGER'', 2), (''HR'', 3), (''ADMIN'', 4)]"

definition objectPrototypeMembers :: "string list" where
  "objectPrototypeMembers =
     [''constructor'', ''__defineGetter__'', ''__defineSetter__'', ''hasOwnProperty'',
      ''__lookupGetter__'', ''__lookupSetter__'', ''isPrototypeOf'',
      ''propertyIsEnumerable'', ''toString'', ''valueOf'', ''__proto__'', ''toLocaleString'']"

datatype level = Level nat | Inherited string

definition lookupLevel :: "string \<Rightarrow> level" where
  "lookupLevel role =
     (case map_of roleHierarchy role of
        Some n \<Rightarrow> Level n
      | None \<Rightarrow> if role \<in> set objectPrototypeMembers then Inherited role else Level 0)"

text \<open>
  \<^verbatim>\<open>userLevel >= requiredLevel\<close>.  Two numbers compare as numbers.  A function or object
  against a number converts to NaN, and the comparison is false.  Two inherited members
  compare by the text the runtime prints for them; that text is no part of the
  repository, so the comparison of two member names is the parameter \<open>srcGe\<close>.
\<close>

fun level_ge :: "(string \<Rightarrow> string \<Rightarrow> bool) \<Rightarrow> level \<Rightarrow> level \<Rightarrow> bool" where
  "level_ge srcGe (Level a) (Level b) = (a \<ge> b)"
| "level_ge srcGe (Inherited x) (Inherited y) = srcGe x y"
| "level_ge srcGe (Inherited x) (Level b) = False"
| "level_ge srcGe (Level a) (Inherited y) = False"

definition hasRole :: "(string \<Rightarrow> string \<Rightarrow> bool) \<Rightarrow> string \<Rightarrow> string \<Rightarrow> bool" where
  "hasRole srcGe userRole requiredRole =
     level_ge srcGe (lookupLevel userRole) (lookupLevel requiredRole)"

definition UserService_canAccessTeamAnalytics ::
    "(string \<Rightarrow> string \<Rightarrow> bool) \<Rightarrow> string \<Rightarrow> bool" where
  "UserService_canAccessTeamAnalytics srcGe userRole = hasRole srcGe userRole ''MANAGER''"

definition UserService_canAccessOrganizationAnalytics ::
    "(string \<Rightarrow> string \<Rightarrow> bool) \<Rightarrow> string \<Rightarrow> bool" where
  "UserService_canAccessOrganizationAnalytics srcGe userRole = hasRole srcGe userRole ''HR''"

text \<open>\<^verbatim>\<open>AnalyticsService\<close> keeps its own two checks, by membership in a list.\<close>

definition AnalyticsService_canAccessTeamAnalytics :: "string \<Rightarrow> bool" where
  "AnalyticsService_canAccessTeamAnalytics userRole =
     (userRole \<in> set [''MANAGER'', ''HR'', ''ADMIN''])"

definition AnalyticsService_canAccessOrganizationAnalytics :: "string \<Rightarrow> bool" where
  "AnalyticsService_canAccessOrganizationAnalytics userRole =
     (userRole \<in> set [''HR'', ''ADMIN''])"

text \<open>
  The rank of the specification: EMPLOYEE is 1, MANAGER 2, HR 3, ADMIN 4, and an
  unrecognized role 0.
\<close>

definition rank :: "string \<Rightarrow> nat" where
  "rank role =
     (if role = ''EMPLOYEE'' then 1
      else if role = ''MANAGER'' then 2
      else if role = ''HR'' then 3
      else if role = ''ADMIN'' then 4
      else 0)"

section \<open>Data: JavaScript values, table rows, the store and the message bus\<close>

text \<open>
  The objects the service builds with object literals are lists of properties in the
  order of the literal; reading a property that is not there gives \<^verbatim>\<open>undefined\<close>.
\<close>

datatype jsval =
    JUndefined
  | JNull
  | JBool bool
  | JStr string
  | JNum nat
  | JArr "string list"
  | JObj "(string \<times> jsval) list"

type_synonym jsobj = "(string \<times> jsval) list"

definition getProp :: "jsobj \<Rightarrow> string \<Rightarrow> jsval" where
  "getProp obj k = (case map_of obj k of None \<Rightarrow> JUndefined | Some v \<Rightarrow> v)"

text \<open>The loose test \<^verbatim>\<open>v == null\<close>: no value, be it \<^verbatim>\<open>null\<close> or \<^verbatim>\<open>undefined\<close>.\<close>

definition isNullish :: "jsval \<Rightarrow> bool" where
  "isNullish v = (v = JNull \<or> v = JUndefined)"

subsection \<open>The store as the schema creates it\<close>

text \<open>
  Rows of the tables \<^verbatim>\<open>users\<close> and \<^verbatim>\<open>recognitions\<close> of \<^verbatim>\<open>database/schema.sql\<close>.
  Identifiers are strings that stand for the UUIDs of the tables, timestamps are numbers.

  The column \<^verbatim>\<open>visibility\<close> has the enumeration type of the schema, whose labels are
  PUBLIC, PRIVATE and ANONYMOUS: the store refuses a statement that brings any other
  text to this column.  The table \<^verbatim>\<open>recognitions\<close> has no column \<^verbatim>\<open>updated_at\<close>.

  The column \<^verbatim>\<open>keywords\<close> is of type JSONB.  The service writes it as the JSON text of
  an array of strings, and the database driver hands a JSONB value back parsed, so a
  row read from the store carries the array itself, not its text.
\<close>

definition visibility_enum :: "string list" where
  "visibility_enum = [''PUBLIC'', ''PRIVATE'', ''ANONYMOUS'']"

record user_row =
  u_id :: string
  u_email :: string
  u_name :: string
  u_role :: string
  u_team_id :: "string option"

record recognition_row =
  r_id :: string
  sender_id :: "string option"
  recipient_id :: string
  r_message :: string
  r_visibility :: string
  r_keywords :: "string list"
  created_at :: nat

record database =
  users :: "user_row list"
  recognitions :: "recognition_row list"

subsection \<open>\<^verbatim>\<open>JSON.parse\<close> on an array\<close>

text \<open>
  \<^verbatim>\<open>JSON.parse\<close> converts its argument to a string first; an array of strings becomes
  its elements joined by commas.
\<close>

fun join_comma :: "string list \<Rightarrow> string" where
  "join_comma [] = []"
| "join_comma [w] = w"
| "join_comma (w # v # ws) = w @ CHR '','' # join_comma (v # ws)"

text \<open>
  A text of ASCII letters and commas only is JSON exactly when it is one of the three
  literals \<^verbatim>\<open>true\<close>, \<^verbatim>\<open>false\<close> and \<^verbatim>\<open>null\<close>; on any other such text, the empty one
  included, \<^verbatim>\<open>JSON.parse\<close> throws (\<open>None\<close>).  What the parser of the runtime does with a
  text that has other characters is no part of the repository; it is the parameter
  \<open>parseOther\<close>.
\<close>

type_synonym json_parser = "string \<Rightarrow> jsval option"

definition JSON_parse :: "json_parser \<Rightarrow> string \<Rightarrow> jsval option" where
  "JSON_parse parseOther t =
     (if list_all (\<lambda>c. isAsciiLetter c \<or> c = CHR '','') t
      then (if t = ''true'' then Some (JBool True)
            else if t = ''false'' then Some (JBool False)
            else if t = ''null'' then Some JNull
            else None)
      else parseOther t)"

subsection \<open>The message bus and the inputs\<close>

text \<open>
  The bus keeps what it has published.  A publish may throw; whether it does is up to
  the bus, so \<open>rejects\<close> may depend on everything published so far and on the event.
\<close>

type_synonym event = "string \<times> jsobj"

record pubsub =
  published :: "event list"
  rejects :: "event list \<Rightarrow> event \<Rightarrow> bool"

definition publish :: "pubsub \<Rightarrow> string \<Rightarrow> jsobj \<Rightarrow> unit + pubsub" where
  "publish bus channel payload =
     (if rejects bus (published bus) (channel, payload) then Inl ()
      else Inr (bus\<lparr>published := published bus @ [(channel, payload)]\<rparr>))"

record CreateRecognitionInput =
  recipientId :: string
  message :: string
  visibility :: string


text \<open>The argument of \<^verbatim>\<open>updateRecognition\<close>, typed \<^verbatim>\<open>any\<close>: an id and optional fields.\<close>

record UpdateInput =
  upd_id :: string
  upd_message :: "string option"
  upd_visibility :: "string option"
  upd_keywords :: "string list option"

section \<open>Queries\<close>

text \<open>
  Every read selects recognitions joined with their recipient (an inner join: a row
  whose recipient is no user drops out) and with their sender (a left join: a missing
  sender leaves \<^verbatim>\<open>NULL\<close> names).
\<close>

record joined_row =
  j_row :: recognition_row
  sender_name :: jsval
  sender_email :: jsval
  recipient_name :: jsval
  recipient_email :: jsval

definition find_user :: "database \<Rightarrow> string \<Rightarrow> user_row option" where
  "find_user db uid = find (\<lambda>u. u_id u = uid) (users db)"





text \<open>
  \<^verbatim>\<open>formatRecognitionRow\<close> calls \<^verbatim>\<open>JSON.parse(row.keywords || '[]')\<close>.  The array of the
  row is truthy, so it is the array that is parsed, and the function throws when the
  joined text is no JSON.
\<close>

definition formatRecognitionRow :: "json_parser \<Rightarrow> joined_row \<Rightarrow> error + jsobj" where
  "formatRecognitionRow parseOther j =
     (case JSON_parse parseOther (join_comma (r_keywords (j_row j))) of
        None \<Rightarrow> Inl JsonSyntaxError
      | Some kw \<Rightarrow>
          Inr [(''id'', JStr (r_id (j_row j))),
               (''message'', JStr (r_message (j_row j))),
               (''visibility'', JStr (r_visibility (j_row j))),
               (''keywords'', kw),
               (''createdAt'', JNum (created_at (j_row j))),
               (''sender'',
                  (case sender_id (j_row j) of
                     None \<Rightarrow> JNull
                   | Some sid \<Rightarrow>
                       if sid = [] then JNull
                       else JObj [(''id'', JStr sid), (''name'', sender_name j),
                                  (''email'', sender_email j)])),
               (''recipient'',
                  JObj [(''id'', JStr (recipient_id (j_row j))), (''name'', recipient_name j),
                        (''email'', recipient_email j)])])"





section \<open>Creation\<close>

definition validateRecognitionInput :: "CreateRecognitionInput \<Rightarrow> string \<Rightarrow> error + unit" where
  "validateRecognitionInput input userId =
     (case validateMessage (message input) of
        Inl e \<Rightarrow> Inl e
      | Inr _ \<Rightarrow>
          (case validateVisibility (visibility input) of
             Inl e \<Rightarrow> Inl e
           | Inr _ \<Rightarrow> validateRecipientSenderID (recipientId input) userId))"

definition validateRecipient :: "database \<Rightarrow> string \<Rightarrow> error + user_row" where
  "validateRecipient db rcp =
     (case find_user db rcp of None \<Rightarrow> Inl RecipientNotFound | Some u \<Rightarrow> Inr u)"

text \<open>
  \<^verbatim>\<open>insertRecognition\<close>: the store chooses the id of the new row and stamps it with
  the current time; both are arguments here (\<open>newId\<close>, \<open>now\<close>).  \<open>new_row\<close> is the row
  the statement describes.  The store refuses it when the visibility is no label of
  the enumeration; else the function returns the inserted row (\<^verbatim>\<open>RETURNING *\<close>) and the
  store with that row.
\<close>

definition new_row ::
    "string \<Rightarrow> nat \<Rightarrow> string \<Rightarrow> CreateRecognitionInput \<Rightarrow> string list \<Rightarrow> recognition_row" where
  "new_row newId now userId input kws =
     \<lparr> r_id = newId,
       sender_id = (if visibility input = ''ANONYMOUS'' then None else Some userId),
       recipient_id = recipientId input,
       r_message = trim (message input),
       r_visibility = visibility input,
       r_keywords = kws,
       created_at = now \<rparr>"

definition insertRecognition ::
    "database \<Rightarrow> string \<Rightarrow> nat \<Rightarrow> string \<Rightarrow> CreateRecognitionInput \<Rightarrow> string list
       \<Rightarrow> error + (recognition_row \<times> database)" where
  "insertRecognition db newId now userId input kws =
     (if visibility input \<notin> set visibility_enum then Inl DbInvalidEnumValue
      else Inr (new_row newId now userId input kws,
                db\<lparr>recognitions := recognitions db @ [new_row newId now userId input kws]\<rparr>))"

text \<open>The object literal of \<^verbatim>\<open>sendNotifications\<close>; \<open>kw\<close> is the parsed keywords value.\<close>

definition recognitionData :: "recognition_row \<Rightarrow> jsval \<Rightarrow> user_row \<Rightarrow> jsobj" where
  "recognitionData recognition kw recipient =
     [(''id'', JStr (r_id recognition)),
      (''message'', JStr (r_message recognition)),
      (''visibility'', JStr (r_visibility recognition)),
      (''keywords'', kw),
      (''createdAt'', JNum (created_at recognition)),
      (''recipient'',
         JObj [(''id'', JStr (u_id recipient)), (''name'', JStr (u_name recipient)),
               (''email'', JStr (u_email recipient))])]"

text \<open>
  \<^verbatim>\<open>sendNotifications\<close>: the whole body sits in \<^verbatim>\<open>try\<close>, and \<^verbatim>\<open>catch\<close> only logs.  The
  first thing in it is \<^verbatim>\<open>JSON.parse(recognition.keywords)\<close> on the array of the inserted
  row; when that throws, nothing is published.  A publish that throws ends the
  function with what was published before.
\<close>

definition sendNotifications ::
    "json_parser \<Rightarrow> pubsub \<Rightarrow> recognition_row \<Rightarrow> user_row \<Rightarrow> pubsub" where
  "sendNotifications parseOther bus recognition recipient =
     (case JSON_parse parseOther (join_comma (r_keywords recognition)) of
        None \<Rightarrow> bus
      | Some kw \<Rightarrow>
          (let d = recognitionData recognition kw recipient
           in case publish bus ''RECOGNITION_RECEIVED'' [(''recognitionReceived'', JObj d)] of
                Inl _ \<Rightarrow> bus
              | Inr bus1 \<Rightarrow>
                  if r_visibility recognition = ''PUBLIC''
                  then (case publish bus1 ''RECOGNITION_CREATED''
                               [(''recognitionCreated'', JObj d)] of
                          Inl _ \<Rightarrow> bus1
                        | Inr bus2 \<Rightarrow> bus2)
                  else bus1))"

text \<open>
  \<^verbatim>\<open>formatRecognitionResponse\<close> reads the keywords through \<^verbatim>\<open>parseKeywords\<close>, which
  returns an array as it is.
\<close>

definition formatRecognitionResponse :: "recognition_row \<Rightarrow> string \<Rightarrow> user_row \<Rightarrow> jsobj" where
  "formatRecognitionResponse recognition senderId recipient =
     [(''id'', JStr (r_id recognition)),
      (''message'', JStr (r_message recognition)),
      (''visibility'', JStr (r_visibility recognition)),
      (''keywords'', JArr (r_keywords recognition)),
      (''createdAt'', JNum (created_at recognition)),
      (''sender'',
         (if r_visibility recognition = ''ANONYMOUS'' then JNull
          else JObj [(''id'', JStr senderId), (''name'', JStr ''Current User''),
                     (''email'', JStr ''current@company.com'')])),
      (''recipient'',
         JObj [(''id'', JStr (u_id recipient)), (''name'', JStr (u_name recipient)),
               (''email'', JStr (u_email recipient))])]"

text \<open>
  \<^verbatim>\<open>createRecognition\<close> returns what the caller gets (the response, or the error
  thrown) together with the store and the bus as the call leaves them.
\<close>

definition createRecognition ::
    "json_parser \<Rightarrow> database \<Rightarrow> pubsub \<Rightarrow> string \<Rightarrow> nat \<Rightarrow> string \<Rightarrow> CreateRecognitionInput
       \<Rightarrow> (error + jsobj) \<times> database \<times> pubsub" where
  "createRecognition parseOther db bus newId now userId input =
     (case validateRecognitionInput input userId of
        Inl e \<Rightarrow> (Inl e, db, bus)
      | Inr _ \<Rightarrow>
          (case validateRecipient db (recipientId input) of
             Inl e \<Rightarrow> (Inl e, db, bus)
           | Inr recipient \<Rightarrow>
               (case insertRecognition db newId now userId input
                       (extractKeywords (Some (message input))) of
                  Inl e \<Rightarrow> (Inl e, db, bus)
                | Inr (recognition, db') \<Rightarrow>
                    (Inr (formatRecognitionResponse recognition userId recipient), db',
                     sendNotifications parseOther bus recognition recipient))))"

section \<open>Update and soft deletion\<close>

text \<open>
  The statement of \<^verbatim>\<open>updateRecognition\<close> sets the column \<^verbatim>\<open>updated_at\<close>, whatever fields
  it is given.  The table has no such column, so the store refuses the statement and
  changes nothing.
\<close>

definition db_update_recognition ::
    "database \<Rightarrow> UpdateInput \<Rightarrow> error + (recognition_row \<times> database)" where
  "db_update_recognition db input = Inl DbUndefinedColumn"

text \<open>
  \<^verbatim>\<open>updateRecognition\<close>: a truthy message is validated and its keywords replace
  \<^verbatim>\<open>input.keywords\<close>; with no field defined the call fails; else the statement is sent
  to the store, and the row it returns would be formatted without joined names.
\<close>

definition updateRecognition ::
    "json_parser \<Rightarrow> database \<Rightarrow> string \<Rightarrow> UpdateInput \<Rightarrow> (error + jsobj) \<times> database" where
  "updateRecognition parseOther db userId input0 =
     (case find (\<lambda>r. r_id r = upd_id input0) (recognitions db) of
        None \<Rightarrow> (Inl RecognitionNotFound, db)
      | Some recognition \<Rightarrow>
          if sender_id recognition \<noteq> Some userId then (Inl UpdateOwnOnly, db)
          else
            (case (case upd_message input0 of
                     None \<Rightarrow> Inr input0
                   | Some m \<Rightarrow>
                       if m = [] then Inr input0
                       else (case validateMessage m of
                               Inl e \<Rightarrow> Inl e
                             | Inr _ \<Rightarrow>
                                 Inr (input0\<lparr>upd_keywords := Some (extractKeywords (Some m))\<rparr>))) of
               Inl e \<Rightarrow> (Inl e, db)
             | Inr input \<Rightarrow>
                 if upd_message input = None \<and> upd_visibility input = None
                      \<and> upd_keywords input = None
                 then (Inl NoFieldsToUpdate, db)
                 else
                   (case db_update_recognition db input of
                      Inl e \<Rightarrow> (Inl e, db)
                    | Inr (returned, db') \<Rightarrow>
                        (case formatRecognitionRow parseOther
                                \<lparr> j_row = returned, sender_name = JUndefined,
                                  sender_email = JUndefined, recipient_name = JUndefined,
                                  recipient_email = JUndefined \<rparr> of
                           Inl e \<Rightarrow> (Inl e, db')
                         | Inr v \<Rightarrow> (Inr v, db')))))"

text \<open>
  \<^verbatim>\<open>UPDATE recognitions SET visibility = $1 WHERE id = $2\<close>: the store refuses a text
  that is no label of the enumeration, and else writes it to the rows of that id.
\<close>

definition db_set_visibility :: "database \<Rightarrow> string \<Rightarrow> string \<Rightarrow> error + database" where
  "db_set_visibility db vis rid =
     (if vis \<notin> set visibility_enum then Inl DbInvalidEnumValue
      else Inr (db\<lparr>recognitions :=
                    map (\<lambda>r. if r_id r = rid then r\<lparr>r_visibility := vis\<rparr> else r)
                      (recognitions db)\<rparr>))"

definition deleteRecognition :: "database \<Rightarrow> string \<Rightarrow> string \<Rightarrow> (error + bool) \<times> database" where
  "deleteRecognition db rid userId =
     (case find (\<lambda>r. r_id r = rid) (recognitions db) of
        None \<Rightarrow> (Inl RecognitionNotFound, db)
      | Some recognition \<Rightarrow>
          if sender_id recognition \<noteq> Some userId then (Inl DeleteOwnOnly, db)
          else (case db_set_visibility db ''DELETED'' rid of
                  Inl e \<Rightarrow> (Inl e, db)
                | Inr db' \<Rightarrow> (Inr True, db')))"

section \<open>Notions used in the statements\<close>

text \<open>
  A message contains blocked content when its lower-cased text includes \<^verbatim>\<open>spam\<close> or one
  of the blocked words.
\<close>

definition containsBlocked :: "string \<Rightarrow> bool" where
  "containsBlocked msg =
     list_ex (\<lambda>w. str_includes (toLowerCase msg) w) (''spam'' # blockedWords)"

text \<open>\<open>has_key k v\<close>: some object inside the value \<open>v\<close>, at any depth, has a property \<open>k\<close>.\<close>

fun has_key :: "string \<Rightarrow> jsval \<Rightarrow> bool" where
  "has_key k (JObj fs) = (k \<in> set (map fst fs) \<or> list_ex (has_key k) (map snd fs))"
| "has_key k v = False"

text \<open>The events a call has added to the bus.\<close>

definition new_events :: "pubsub \<Rightarrow> pubsub \<Rightarrow> event list" where
  "new_events bus bus' = drop (length (published bus)) (published bus')"

text \<open>
  Reading a property of a value (\<^verbatim>\<open>v.k\<close>), and the recognition object an event
  carries: the subscriptions read \<^verbatim>\<open>payload.recognitionReceived\<close> on the recipient
  channel and \<^verbatim>\<open>payload.recognitionCreated\<close> on the public one.
\<close>

definition getField :: "jsval \<Rightarrow> string \<Rightarrow> jsval" where
  "getField v k = (case v of JObj fs \<Rightarrow> getProp fs k | _ \<Rightarrow> JUndefined)"

definition event_recognition :: "event \<Rightarrow> jsval" where
  "event_recognition ev =
     (if fst ev = ''RECOGNITION_RECEIVED'' then getProp (snd ev) ''recognitionReceived''
      else getProp (snd ev) ''recognitionCreated'')"

text \<open>No row of a store has a visibility outside the enumeration.\<close>

definition store_typed :: "database \<Rightarrow> bool" where
  "store_typed db = list_all (\<lambda>r. r_visibility r \<in> set visibility_enum) (recognitions db)"

subsection \<open>A small organisation, for concrete runs\<close>

text \<open>
  Three users and one recognition, after the sample data of the schema.  The concrete
  runs never parse a text with other characters than letters and commas, so any parser
  serves for \<open>parseOther\<close>; \<open>refusing_parser\<close> refuses every text.
\<close>

definition refusing_parser :: json_parser where
  "refusing_parser t = None"

definition example_users :: "user_row list" where
  "example_users =
     [\<lparr> u_id = ''u1'', u_email = ''john@company.com'', u_name = ''John Doe'',
         u_role = ''MANAGER'', u_team_id = Some ''t1'' \<rparr>,
      \<lparr> u_id = ''u2'', u_email = ''jane@company.com'', u_name = ''Jane Smith'',
         u_role = ''EMPLOYEE'', u_team_id = Some ''t1'' \<rparr>,
      \<lparr> u_id = ''u3'', u_email = ''bob@company.com'', u_name = ''Bob Wilson'',
         u_role = ''HR'', u_team_id = None \<rparr>]"

definition example_row :: recognition_row where
  "example_row =
     \<lparr> r_id = ''r1'', sender_id = Some ''u1'', recipient_id = ''u2'',
       r_message = ''excellent work on the project delivery'', r_visibility = ''PRIVATE'',
       r_keywords = [''excellent'', ''work'', ''project'', ''delivery''], created_at = 1 \<rparr>"

definition example_db :: database where
  "example_db = \<lparr> users = example_users, recognitions = [example_row] \<rparr>"

definition rejects_none :: "event list \<Rightarrow> event \<Rightarrow> bool" where
  "rejects_none evs ev = False"

definition rejects_all :: "event list \<Rightarrow> event \<Rightarrow> bool" where
  "rejects_all evs ev = True"

definition working_bus :: pubsub where
  "working_bus = \<lparr> published = [], rejects = rejects_none \<rparr>"

definition failing_bus :: pubsub where
  "failing_bus = \<lparr> published = [], rejects = rejects_all \<rparr>"

text \<open>
  An input whose one keyword is \<^verbatim>\<open>true\<close>, so that the keywords array reads as JSON,
  and an input with the usual several keywords.
\<close>

definition example_input :: "string \<Rightarrow> CreateRecognitionInput" where
  "example_input vis = \<lparr> recipientId = ''u2'', message = ''so true'', visibility = vis \<rparr>"

definition campaign_input :: "string \<Rightarrow> CreateRecognitionInput" where
  "campaign_input vis =
     \<lparr> recipientId = ''u2'', message = ''great collaboration on the campaign'',
       visibility = vis \<rparr>"

definition self_input :: "string \<Rightarrow> CreateRecognitionInput" where
  "self_input msg = \<lparr> recipientId = ''u1'', message = msg, visibility = ''PUBLIC'' \<rparr>"

text \<open>The recipient of the example inputs, and the rows their creation inserts.\<close>

definition jane :: user_row where
  "jane = \<lparr> u_id = ''u2'', u_email = ''jane@company.com'', u_name = ''Jane Smith'',
            u_role = ''EMPLOYEE'', u_team_id = Some ''t1'' \<rparr>"

definition created_row :: "string \<Rightarrow> string \<Rightarrow> recognition_row" where
  "created_row vis sender =
     \<lparr> r_id = ''r2'', sender_id = (if vis = ''ANONYMOUS'' then None else Some sender),
       recipient_id = ''u2'', r_message = ''so true'',
       r_visibility = vis, r_keywords = [''true''], created_at = 2 \<rparr>"

definition campaign_row :: "string \<Rightarrow> string \<Rightarrow> recognition_row" where
  "campaign_row vis sender =
     \<lparr> r_id = ''r2'', sender_id = (if vis = ''ANONYMOUS'' then None else Some sender),
       recipient_id = ''u2'', r_message = ''great collaboration on the campaign'',
       r_visibility = vis, r_keywords = [''great'', ''collaboration'', ''campaign''],
       created_at = 2 \<rparr>"



definition delete_by_update :: UpdateInput where
  "delete_by_update = \<lparr> upd_id = ''r1'', upd_message = None,
                          upd_visibility = Some ''DELETED'', upd_keywords = None \<rparr>"

section \<open>Keyword extraction agrees with its description\<close>

lemma splitWs_False_shape:
  "splitWs False cs =
     takeWhile (\<lambda>x. \<not> isWhiteSpace x) cs
       # (if dropWhile (\<lambda>x. \<not> isWhiteSpace x) cs = [] then []
          else splitWs True (dropWhile (\<lambda>x. \<not> isWhiteSpace x) cs))"
  by (induction cs) auto

lemma splitWs_nonempty_tokens:
  "filter (\<lambda>t. t \<noteq> []) (splitWs b s) = spec_tokens s"
proof (induction s arbitrary: b rule: spec_tokens.induct)
  case 1
  show ?case by simp
next
  case (2 c cs)
  show ?case
  proof (cases "isWhiteSpace c")
    case True
    with 2(1) show ?thesis by simp
  next
    case False
    let ?D = "dropWhile (\<lambda>x. \<not> isWhiteSpace x) cs"
    have sh: "splitWs b (c # cs) =
        (c # takeWhile (\<lambda>x. \<not> isWhiteSpace x) cs) # (if ?D = [] then [] else splitWs True ?D)"
      using False by (simp add: splitWs_False_shape)
    have "filter (\<lambda>t. t \<noteq> []) (if ?D = [] then [] else splitWs True ?D) = spec_tokens ?D"
    proof (cases "?D = []")
      case True
      then show ?thesis by (simp del: dropWhile_eq_Nil_conv)
    next
      case False
      then show ?thesis using 2(2)[OF \<open>\<not> isWhiteSpace c\<close>, of True]
        by (simp del: dropWhile_eq_Nil_conv)
    qed
    with sh False show ?thesis by simp
  qed
qed

lemma filter_keep_split:
  "filter keep_word (split_whitespace s) = filter spec_qualifies (spec_tokens s)"
proof -
  have eq: "keep_word = spec_qualifies"
    by (auto simp: fun_eq_iff keep_word_def spec_qualifies_def test_alpha_def)
  have "filter keep_word (splitWs False s)
      = filter keep_word (filter (\<lambda>t. t \<noteq> []) (splitWs False s))"
    by (auto simp: filter_filter keep_word_def intro!: filter_cong)
  then show ?thesis by (simp add: split_whitespace_def splitWs_nonempty_tokens eq)
qed

lemma extractKeywords_Some: "extractKeywords (Some msg) = spec_extract msg"
  by (cases msg) (simp_all add: extractKeywords_def spec_extract_def filter_keep_split toLowerCase_def)

lemma extractKeywords_seven_words:
  "extractKeywords
     (Some ''excellent outstanding amazing fantastic wonderful brilliant incredible'')
   = [''excellent'', ''outstanding'', ''amazing'', ''fantastic'', ''wonderful'']"
  by code_simp

lemma extractKeywords_repeats:
  "extractKeywords (Some ''Great great work! work  GREAT'') = [''great'', ''great'', ''work'', ''great'']"
  by code_simp

text \<open>
  C8.  Keyword extraction answers the empty list for a null and for an empty message.
  For every message it returns the first 5, in their order in the text and with
  repetitions kept, of the tokens of the lower-cased message (its maximal runs of
  characters that are not white space) that are longer than 3 characters, consist of
  letters only and are no stop word.  On the seven-word sentence of the specification
  it returns the first five words, left to right.
\<close>

theorem extractKeywords_as_specified:
  "extractKeywords None = []
   \<and> extractKeywords (Some []) = []
   \<and> extractKeywords (Some msg)
       = take 5 (filter spec_qualifies (spec_tokens (toLowerCase msg)))
   \<and> length (extractKeywords (Some msg)) \<le> 5
   \<and> extractKeywords
        (Some ''excellent outstanding amazing fantastic wonderful brilliant incredible'')
       = [''excellent'', ''outstanding'', ''amazing'', ''fantastic'', ''wonderful'']
   \<and> extractKeywords (Some ''Great great work! work  GREAT'')
       = [''great'', ''great'', ''work'', ''great'']"
proof -
  have a: "extractKeywords None = []" "extractKeywords (Some []) = []"
    by (simp_all add: extractKeywords_def)
  have b: "extractKeywords (Some msg)
       = take 5 (filter spec_qualifies (spec_tokens (toLowerCase msg)))"
    using extractKeywords_Some [of msg] by (simp add: spec_extract_def)
  have c: "length (extractKeywords (Some msg)) \<le> 5"
    by (simp add: b)
  from a b c extractKeywords_seven_words extractKeywords_repeats show ?thesis
    by (intro conjI)
qed

section \<open>Role checks agree with the rank\<close>

text \<open>
  C4.  For every role string, recognised or not, both services answer the two
  analytics checks by comparing ranks: team analytics needs at least the rank of
  MANAGER, organisation analytics at least the rank of HR.
\<close>

theorem analytics_checks_follow_rank:
  "UserService_canAccessTeamAnalytics srcGe r = (rank r \<ge> rank ''MANAGER'')
   \<and> UserService_canAccessOrganizationAnalytics srcGe r = (rank r \<ge> rank ''HR'')
   \<and> AnalyticsService_canAccessTeamAnalytics r = (rank r \<ge> rank ''MANAGER'')
   \<and> AnalyticsService_canAccessOrganizationAnalytics r = (rank r \<ge> rank ''HR'')"
  by (simp add: UserService_canAccessTeamAnalytics_def
      UserService_canAccessOrganizationAnalytics_def
      AnalyticsService_canAccessTeamAnalytics_def
      AnalyticsService_canAccessOrganizationAnalytics_def
      hasRole_def lookupLevel_def roleHierarchy_def rank_def objectPrototypeMembers_def)


section \<open>Message validation\<close>

lemma startsWith_set: "startsWith s t \<Longrightarrow> set t \<subseteq> set s"
  by (induction s t rule: startsWith.induct) auto

lemma str_includes_set: "str_includes s t \<Longrightarrow> set t \<subseteq> set s"
  by (induction s) (auto dest!: startsWith_set)

lemma validateMessage_iff:
  "(validateMessage m = Inr ()) = (trim m \<noteq> [] \<and> length m \<le> 500 \<and> \<not> containsBlocked m)"
  by (auto simp: validateMessage_def containsBlocked_def trim_def)

lemma validateMessage_too_long:
  "length m > 500 \<Longrightarrow>
     validateMessage m = Inl MessageRequired \<or> validateMessage m = Inl MessageTooLong"
  by (simp add: validateMessage_def)

lemma validateMessage_blank: "trim m = [] \<Longrightarrow> validateMessage m = Inl MessageRequired"
  by (simp add: validateMessage_def)

lemma trim_id:
  assumes "s \<noteq> []" "\<not> isWhiteSpace (hd s)" "\<not> isWhiteSpace (last s)"
  shows "trim s = s"
proof -
  from assms have "dropWhile isWhiteSpace s = s"
    by (simp add: dropWhile_eq_self_iff)
  moreover from assms have "dropWhile isWhiteSpace (rev s) = rev s"
    by (simp add: dropWhile_eq_self_iff hd_rev)
  ultimately show ?thesis by (simp add: trim_def)
qed

lemma length_trim_le: "length (trim s) \<le> length s"
proof -
  have "length (trim s) \<le> length (dropWhile isWhiteSpace s)"
    unfolding trim_def by (metis length_dropWhile_le length_rev)
  also have "\<dots> \<le> length s" by (rule length_dropWhile_le)
  finally show ?thesis .
qed

lemma toLowerCase_replicate_a: "toLowerCase (replicate n CHR ''a'') = replicate n CHR ''a''"
  by (simp add: toLowerCase_def toLowerChar_def)

lemma not_blocked_a: "\<not> containsBlocked (replicate n CHR ''a'')"
proof
  assume "containsBlocked (replicate n CHR ''a'')"
  then obtain w where w: "w \<in> set (''spam'' # blockedWords)"
      "str_includes (replicate n CHR ''a'') w"
    by (auto simp: containsBlocked_def toLowerCase_replicate_a list_ex_iff)
  from str_includes_set [OF w(2)] have "set w \<subseteq> {CHR ''a''}" by auto
  with w(1) show False by (auto simp: blockedWords_def)
qed

lemma trim_replicate_a: "0 < n \<Longrightarrow> trim (replicate n CHR ''a'') = replicate n CHR ''a''"
  by (rule trim_id) (simp_all add: isWhiteSpace_def hd_replicate last_replicate)

lemma trim_padded: "trim (CHR ''a'' # replicate n CHR '' '') = ''a''"
proof -
  have "dropWhile isWhiteSpace (replicate n CHR '' '' @ ''a'') = ''a''"
    by (simp add: dropWhile_append isWhiteSpace_def)
  then show ?thesis by (simp add: trim_def isWhiteSpace_def)
qed

lemma toLowerCase_padded:
  "toLowerCase (CHR ''a'' # replicate n CHR '' '') = CHR ''a'' # replicate n CHR '' ''"
  by (simp add: toLowerCase_def toLowerChar_def)

lemma not_blocked_padded: "\<not> containsBlocked (CHR ''a'' # replicate n CHR '' '')"
proof
  assume "containsBlocked (CHR ''a'' # replicate n CHR '' '')"
  then obtain w where w: "w \<in> set (''spam'' # blockedWords)"
      "str_includes (CHR ''a'' # replicate n CHR '' '') w"
    by (auto simp: containsBlocked_def toLowerCase_padded list_ex_iff)
  from str_includes_set [OF w(2)] have "set w \<subseteq> {CHR ''a'', CHR '' ''}" by auto
  with w(1) show False by (auto simp: blockedWords_def)
qed

lemma example_message_valid: "validateMessage ''great collaboration on the campaign'' = Inr ()"
  by code_simp

lemma example_message_trim:
  "trim ''great collaboration on the campaign'' = ''great collaboration on the campaign''"
  by code_simp

lemma example_message_keywords:
  "extractKeywords (Some ''great collaboration on the campaign'')
     = [''great'', ''collaboration'', ''campaign'']"
  by code_simp

lemma spam_rejected: "validateMessage ''buy spam now'' = Inl InappropriateContent"
  by code_simp

lemma so_true_valid: "validateMessage ''so true'' = Inr ()"
  by code_simp

lemma so_true_trim: "trim ''so true'' = ''so true''"
  by code_simp

lemma so_true_keywords: "extractKeywords (Some ''so true'') = [''true'']"
  by code_simp

section \<open>Keywords read back from the store\<close>

lemma extractKeywords_letters: "list_all (\<lambda>w. list_all isAsciiLetter w) (extractKeywords m)"
proof (cases m)
  case None
  then show ?thesis by (simp add: extractKeywords_def)
next
  case (Some msg)
  have "list_all isAsciiLetter w"
    if "w \<in> set (take 5 (filter keep_word (split_whitespace (toLowerCase msg))))" for w
  proof -
    from that have "w \<in> set (filter keep_word (split_whitespace (toLowerCase msg)))"
      by (rule in_set_takeD)
    then show ?thesis by (simp add: keep_word_def test_alpha_def)
  qed
  with Some show ?thesis by (simp add: extractKeywords_def list_all_iff)
qed

lemma join_comma_letters:
  "list_all (\<lambda>w. list_all isAsciiLetter w) ws \<Longrightarrow>
     list_all (\<lambda>c. isAsciiLetter c \<or> c = CHR '','') (join_comma ws)"
  by (induction ws rule: join_comma.induct) (auto simp: list_all_iff)

lemma JSON_parse_letters:
  assumes "list_all (\<lambda>w. list_all isAsciiLetter w) ws"
  shows "JSON_parse parseOther (join_comma ws) =
     (if join_comma ws = ''true'' then Some (JBool True)
      else if join_comma ws = ''false'' then Some (JBool False)
      else if join_comma ws = ''null'' then Some JNull
      else None)"
  using join_comma_letters [OF assms] by (simp add: JSON_parse_def)

lemma JSON_parse_keywords_no_key:
  "JSON_parse parseOther (join_comma (extractKeywords m)) = Some kw \<Longrightarrow> \<not> has_key k kw"
  by (auto simp: JSON_parse_letters [OF extractKeywords_letters] split: if_splits)

lemma created_row_parsed:
  "JSON_parse parseOther (join_comma (r_keywords (created_row vis u))) = Some (JBool True)"
  by (simp add: created_row_def JSON_parse_def isAsciiLetter_def)

lemma campaign_row_unparsed:
  "JSON_parse parseOther (join_comma (r_keywords (campaign_row vis u))) = None"
  by (simp add: campaign_row_def JSON_parse_def isAsciiLetter_def)


section \<open>Creation: what a successful call has done\<close>

lemma validVisibilities_enum: "validVisibilities = visibility_enum"
  by (simp add: validVisibilities_def visibility_enum_def)

lemma validateRecognitionInput_InrD:
  assumes "validateRecognitionInput input userId = Inr ()"
  shows "validateMessage (message input) = Inr ()" "visibility input \<in> set validVisibilities"
    "recipientId input \<noteq> []" "recipientId input \<noteq> userId"
  using assms
  by (auto simp: validateRecognitionInput_def validateVisibility_def
      validateRecipientSenderID_def split: sum.splits if_splits)

lemma createRecognition_ok:
  assumes "validateRecognitionInput input userId = Inr ()"
    and "validateRecipient db (recipientId input) = Inr rcp"
  shows "createRecognition parseOther db bus newId now userId input =
     (Inr (formatRecognitionResponse
             (new_row newId now userId input (extractKeywords (Some (message input))))
             userId rcp),
      db\<lparr>recognitions := recognitions db
            @ [new_row newId now userId input (extractKeywords (Some (message input)))]\<rparr>,
      sendNotifications parseOther bus
        (new_row newId now userId input (extractKeywords (Some (message input)))) rcp)"
  using assms validateRecognitionInput_InrD(2) [OF assms(1)]
  by (simp add: createRecognition_def insertRecognition_def validVisibilities_enum)

lemma createRecognition_InrD:
  assumes "createRecognition parseOther db bus newId now userId input = (Inr resp, db', bus')"
  shows "validateRecognitionInput input userId = Inr ()
     \<and> (\<exists>rcp. validateRecipient db (recipientId input) = Inr rcp)"
  using assms by (auto simp: createRecognition_def split: sum.splits)

lemma createRecognition_result:
  assumes "createRecognition parseOther db bus newId now userId input = (Inr resp, db', bus')"
  obtains rcp row where
    "validateRecognitionInput input userId = Inr ()"
    "validateRecipient db (recipientId input) = Inr rcp"
    "row = new_row newId now userId input (extractKeywords (Some (message input)))"
    "resp = formatRecognitionResponse row userId rcp"
    "db' = db\<lparr>recognitions := recognitions db @ [row]\<rparr>"
    "bus' = sendNotifications parseOther bus row rcp"
proof -
  from createRecognition_InrD [OF assms] obtain rcp where
    v: "validateRecognitionInput input userId = Inr ()"
    and r: "validateRecipient db (recipientId input) = Inr rcp" by blast
  from createRecognition_ok [OF v r, of parseOther bus newId now] assms
  show thesis by (intro that [of rcp]) (simp_all add: v r)
qed

lemma new_row_fields:
  "r_id (new_row newId now userId input kws) = newId"
  "r_visibility (new_row newId now userId input kws) = visibility input"
  "sender_id (new_row newId now userId input kws)
     = (if visibility input = ''ANONYMOUS'' then None else Some userId)"
  "r_message (new_row newId now userId input kws) = trim (message input)"
  "r_keywords (new_row newId now userId input kws) = kws"
  by (simp_all add: new_row_def)

lemma new_events_sendNotifications:
  "new_events bus (sendNotifications parseOther bus r u) =
     (case JSON_parse parseOther (join_comma (r_keywords r)) of
        None \<Rightarrow> []
      | Some kw \<Rightarrow>
          if rejects bus (published bus)
               (''RECOGNITION_RECEIVED'', [(''recognitionReceived'', JObj (recognitionData r kw u))])
          then []
          else (''RECOGNITION_RECEIVED'', [(''recognitionReceived'', JObj (recognitionData r kw u))])
            # (if r_visibility r = ''PUBLIC'' \<and>
                  \<not> rejects bus
                      (published bus @
                        [(''RECOGNITION_RECEIVED'',
                          [(''recognitionReceived'', JObj (recognitionData r kw u))])])
                      (''RECOGNITION_CREATED'',
                       [(''recognitionCreated'', JObj (recognitionData r kw u))])
                then [(''RECOGNITION_CREATED'',
                       [(''recognitionCreated'', JObj (recognitionData r kw u))])]
                else []))"
  by (simp add: new_events_def sendNotifications_def publish_def Let_def split: option.splits)

lemma sendNotifications_unparsed:
  "JSON_parse parseOther (join_comma (r_keywords r)) = None \<Longrightarrow>
     sendNotifications parseOther bus r u = bus"
  by (simp add: sendNotifications_def)

text \<open>
  The keywords of a created row are words of letters, so what \<^verbatim>\<open>createRecognition\<close>
  does never depends on how the runtime parses other texts.
\<close>

lemma sendNotifications_parser_irrelevant:
  "r_keywords r = extractKeywords m \<Longrightarrow>
     sendNotifications p bus r u = sendNotifications q bus r u"
  by (simp add: sendNotifications_def JSON_parse_letters [OF extractKeywords_letters])

lemma createRecognition_parser_irrelevant:
  "createRecognition p db bus newId now userId input
     = createRecognition q db bus newId now userId input"
proof -
  have "sendNotifications p bus
          (new_row newId now userId input (extractKeywords (Some (message input)))) u
      = sendNotifications q bus
          (new_row newId now userId input (extractKeywords (Some (message input)))) u" for u
    by (rule sendNotifications_parser_irrelevant) (simp add: new_row_fields)
  then show ?thesis
    by (simp add: createRecognition_def insertRecognition_def split: sum.splits)
qed

subsection \<open>Creation in the example organisation\<close>

lemma example_validate:
  "vis \<in> set validVisibilities \<Longrightarrow> u \<noteq> ''u2'' \<Longrightarrow>
     validateRecognitionInput (example_input vis) u = Inr ()"
  by (simp add: validateRecognitionInput_def example_input_def so_true_valid
      validateVisibility_def validateRecipientSenderID_def)

lemma example_recipient: "validateRecipient example_db ''u2'' = Inr jane"
  by (simp add: validateRecipient_def find_user_def example_db_def example_users_def jane_def)

lemma example_create:
  assumes "vis \<in> set validVisibilities" "u \<noteq> ''u2''"
  shows "createRecognition parseOther example_db bus ''r2'' 2 u (example_input vis) =
     (Inr (formatRecognitionResponse (created_row vis u) u jane),
      example_db\<lparr>recognitions := [example_row, created_row vis u]\<rparr>,
      sendNotifications parseOther bus (created_row vis u) jane)"
proof -
  have r: "validateRecipient example_db (recipientId (example_input vis)) = Inr jane"
    by (simp add: example_input_def example_recipient)
  have k: "new_row ''r2'' 2 u (example_input vis) (extractKeywords (Some (message (example_input vis))))
      = created_row vis u"
    by (simp add: example_input_def so_true_keywords so_true_trim new_row_def created_row_def)
  show ?thesis
    using createRecognition_ok [OF example_validate [OF assms] r, of parseOther bus "''r2''" 2]
    by (simp add: k) (simp add: example_db_def)
qed

lemma campaign_create:
  assumes "vis \<in> set validVisibilities" "u \<noteq> ''u2''"
  shows "createRecognition parseOther example_db bus ''r2'' 2 u (campaign_input vis) =
     (Inr (formatRecognitionResponse (campaign_row vis u) u jane),
      example_db\<lparr>recognitions := [example_row, campaign_row vis u]\<rparr>,
      bus)"
proof -
  have v: "validateRecognitionInput (campaign_input vis) u = Inr ()"
    using assms
    by (simp add: validateRecognitionInput_def campaign_input_def example_message_valid
        validateVisibility_def validateRecipientSenderID_def)
  have r: "validateRecipient example_db (recipientId (campaign_input vis)) = Inr jane"
    by (simp add: campaign_input_def example_recipient)
  have k: "new_row ''r2'' 2 u (campaign_input vis)
             (extractKeywords (Some (message (campaign_input vis))))
      = campaign_row vis u"
    by (simp add: campaign_input_def example_message_keywords example_message_trim new_row_def
        campaign_row_def)
  have s: "sendNotifications parseOther bus (campaign_row vis u) jane = bus"
    by (rule sendNotifications_unparsed) (rule campaign_row_unparsed)
  show ?thesis
    using createRecognition_ok [OF v r, of parseOther bus "''r2''" 2]
    by (simp add: k s) (simp add: example_db_def)
qed

section \<open>Message length\<close>

text \<open>
  C9, as the claim states it, fails: the length test of \<^verbatim>\<open>validateMessage\<close> reads the
  message as given, not the trimmed one.  One letter followed by 500 blanks has a
  trimmed length of 1, holds no blocked word, and is refused as too long.
\<close>

theorem padded_message_rejected:
  "1 \<le> length (trim (CHR ''a'' # replicate 500 CHR '' ''))
   \<and> length (trim (CHR ''a'' # replicate 500 CHR '' '')) \<le> 500
   \<and> \<not> containsBlocked (CHR ''a'' # replicate 500 CHR '' '')
   \<and> validateMessage (CHR ''a'' # replicate 500 CHR '' '') = Inl MessageTooLong"
  by (simp add: trim_padded not_blocked_padded validateMessage_def)

text \<open>
  C9, amended.  A message is accepted exactly when it is not empty after trimming, its
  length as given is at most 500 and it holds no blocked content.  So a message of
  exactly 500 characters (not blank, nothing blocked) is accepted, a message of more
  than 500 characters fails with a validation error, and so does a message that is
  empty after trimming.  \<^verbatim>\<open>createRecognition\<close> fails with the error of the message
  check and leaves store and bus alone; when it succeeds, the stored message is the
  trimmed text, of 1 to 500 characters.
\<close>

theorem message_length_bounds:
  "(validateMessage m = Inr ()) = (trim m \<noteq> [] \<and> length m \<le> 500 \<and> \<not> containsBlocked m)
   \<and> (length ma = 500 \<and> trim ma \<noteq> [] \<and> \<not> containsBlocked ma \<longrightarrow> validateMessage ma = Inr ())
   \<and> (length mb > 500 \<longrightarrow> (\<exists>e. validateMessage mb = Inl e \<and> classify e = ValidationError))
   \<and> (trim mc = [] \<longrightarrow> (\<exists>e. validateMessage mc = Inl e \<and> classify e = ValidationError))
   \<and> (validateMessage (message input) = Inl e \<longrightarrow>
         createRecognition parseOther db bus newId now userId input = (Inl e, db, bus))
   \<and> (createRecognition parseOther db bus newId now userId input = (Inr resp, db', bus') \<longrightarrow>
         r_message (last (recognitions db')) = trim (message input)
         \<and> 1 \<le> length (r_message (last (recognitions db')))
         \<and> length (r_message (last (recognitions db'))) \<le> 500)"
proof -
  have a: "length ma = 500 \<and> trim ma \<noteq> [] \<and> \<not> containsBlocked ma \<longrightarrow> validateMessage ma = Inr ()"
    by (simp add: validateMessage_iff)
  have b: "length mb > 500 \<longrightarrow> (\<exists>e. validateMessage mb = Inl e \<and> classify e = ValidationError)"
    using validateMessage_too_long [of mb] by auto
  have c: "trim mc = [] \<longrightarrow> (\<exists>e. validateMessage mc = Inl e \<and> classify e = ValidationError)"
    using validateMessage_blank [of mc] by auto
  have d: "validateMessage (message input) = Inl e \<longrightarrow>
         createRecognition parseOther db bus newId now userId input = (Inl e, db, bus)"
    by (simp add: createRecognition_def validateRecognitionInput_def)
  have e: "r_message (last (recognitions db')) = trim (message input)
         \<and> 1 \<le> length (r_message (last (recognitions db')))
         \<and> length (r_message (last (recognitions db'))) \<le> 500"
    if h: "createRecognition parseOther db bus newId now userId input = (Inr resp, db', bus')"
  proof -
    from h obtain rcp row where
      v: "validateRecognitionInput input userId = Inr ()"
      and row: "row = new_row newId now userId input (extractKeywords (Some (message input)))"
      and db': "db' = db\<lparr>recognitions := recognitions db @ [row]\<rparr>"
      by (rule createRecognition_result)
    from validateRecognitionInput_InrD(1) [OF v]
    have ok: "trim (message input) \<noteq> []" "length (message input) \<le> 500"
      by (simp_all add: validateMessage_iff)
    have m: "r_message (last (recognitions db')) = trim (message input)"
      by (simp add: db' row new_row_fields)
    from ok(1) have "1 \<le> length (trim (message input))"
      by (cases "trim (message input)") simp_all
    moreover from ok(2) length_trim_le [of "message input"]
    have "length (trim (message input)) \<le> 500" by simp
    ultimately show ?thesis using m by simp
  qed
  from validateMessage_iff [of m] a b c d e show ?thesis by blast
qed

theorem message_length_bounds_witness:
  "validateMessage (replicate 500 CHR ''a'') = Inr ()
   \<and> validateMessage (replicate 501 CHR ''a'') = Inl MessageTooLong
   \<and> validateMessage ''   '' = Inl MessageRequired
   \<and> createRecognition refusing_parser example_db working_bus ''r2'' 2 ''u1'' (self_input ''   '')
       = (Inl MessageRequired, example_db, working_bus)
   \<and> r_message (last (recognitions
         (example_db\<lparr>recognitions := [example_row, created_row ''PUBLIC'' ''u1'']\<rparr>)))
       = trim (message (example_input ''PUBLIC''))"
proof -
  have h1: "length (replicate 500 CHR ''a'') = 500 \<and> trim (replicate 500 CHR ''a'') \<noteq> []
      \<and> \<not> containsBlocked (replicate 500 CHR ''a'')"
    by (simp add: trim_replicate_a not_blocked_a)
  have h2: "length (replicate 501 CHR ''a'') > 500" by simp
  have h3: "trim ''   '' = []" by (simp add: trim_def isWhiteSpace_def)
  have h4: "validateMessage (message (self_input ''   '')) = Inl MessageRequired"
    by (simp add: self_input_def validateMessage_def h3)
  have h5: "createRecognition refusing_parser example_db working_bus ''r2'' 2 ''u1''
       (example_input ''PUBLIC'')
     = (Inr (formatRecognitionResponse (created_row ''PUBLIC'' ''u1'') ''u1'' jane),
        example_db\<lparr>recognitions := [example_row, created_row ''PUBLIC'' ''u1'']\<rparr>,
        sendNotifications refusing_parser working_bus (created_row ''PUBLIC'' ''u1'') jane)"
    by (rule example_create) (simp_all add: validVisibilities_def)
  have t: "validateMessage (replicate 501 CHR ''a'') = Inl MessageTooLong"
      "validateMessage ''   '' = Inl MessageRequired"
    by (simp_all add: validateMessage_def trim_replicate_a h3)
  from message_length_bounds [where ma = "replicate 500 CHR ''a''"
      and mb = "replicate 501 CHR ''a''" and mc = "''   ''" and input = "self_input ''   ''"
      and e = MessageRequired and db = example_db and bus = working_bus
      and newId = "''r2''" and now = 2 and userId = "''u1''"
      and parseOther = refusing_parser]
    message_length_bounds [where input = "example_input ''PUBLIC''"
      and db = example_db and bus = working_bus and newId = "''r2''" and now = 2
      and userId = "''u1''" and parseOther = refusing_parser
      and resp = "formatRecognitionResponse (created_row ''PUBLIC'' ''u1'') ''u1'' jane"
      and db' = "example_db\<lparr>recognitions := [example_row, created_row ''PUBLIC'' ''u1'']\<rparr>"
      and bus' = "sendNotifications refusing_parser working_bus
                    (created_row ''PUBLIC'' ''u1'') jane"]
    h1 h2 h3 h4 h5 t
  show ?thesis by blast
qed

section \<open>Self-recognition\<close>

text \<open>
  C7, as the claim states it, fails: the message is validated before the recipient is
  compared with the sender.  A self-recognition whose message holds \<^verbatim>\<open>spam\<close> fails
  with the content error, a validation error, and not with the conflict error.
\<close>

theorem self_recognition_with_blocked_message:
  "recipientId (self_input ''buy spam now'') = ''u1''
   \<and> createRecognition refusing_parser example_db working_bus ''r2'' 2 ''u1''
         (self_input ''buy spam now'')
       = (Inl InappropriateContent, example_db, working_bus)
   \<and> classify InappropriateContent = ValidationError"
  by (simp add: createRecognition_def validateRecognitionInput_def self_input_def spam_rejected)

text \<open>
  C7, amended.  Every \<^verbatim>\<open>createRecognition\<close> call whose recipient is the sender fails,
  with store and bus untouched.  The error is that of the first check that fails, in
  the order message, visibility, recipient; it is the self-recognition conflict error
  whenever the message and the visibility are valid and the id is not empty.
\<close>

theorem self_recognition_is_rejected:
  assumes "recipientId input = userId"
  shows "\<exists>e. createRecognition parseOther db bus newId now userId input = (Inl e, db, bus)
     \<and> e = (case validateMessage (message input) of
              Inl e1 \<Rightarrow> e1
            | Inr _ \<Rightarrow>
                (case validateVisibility (visibility input) of
                   Inl e2 \<Rightarrow> e2
                 | Inr _ \<Rightarrow> if userId = [] then RecipientRequired else CannotRecognizeYourself))
     \<and> (validateMessage (message input) = Inr () \<and> validateVisibility (visibility input) = Inr ()
          \<and> userId \<noteq> [] \<longrightarrow> e = CannotRecognizeYourself \<and> classify e = ConflictError)"
  using assms
  by (auto simp: createRecognition_def validateRecognitionInput_def validateRecipientSenderID_def
      split: sum.splits)

theorem self_recognition_is_rejected_witness:
  "recipientId (self_input ''great collaboration on the campaign'') = ''u1''
   \<and> createRecognition refusing_parser example_db working_bus ''r2'' 2 ''u1''
         (self_input ''great collaboration on the campaign'')
       = (Inl CannotRecognizeYourself, example_db, working_bus)
   \<and> classify CannotRecognizeYourself = ConflictError"
proof -
  have h: "recipientId (self_input ''great collaboration on the campaign'') = ''u1''"
    by (simp add: self_input_def)
  from self_recognition_is_rejected
         [OF h, of refusing_parser example_db working_bus "''r2''" 2] h
  show ?thesis
    by (auto simp: self_input_def example_message_valid validateVisibility_def
        validVisibilities_def)
qed

section \<open>Anonymous creation\<close>

text \<open>
  C3.  After a successful \<^verbatim>\<open>createRecognition\<close> the persisted row, the last of the
  table, has a null sender exactly when the requested visibility is ANONYMOUS.  When it
  is ANONYMOUS, the response has \<^verbatim>\<open>sender: null\<close>, and every event the call published
  carries the new recognition with no sender: reading its \<^verbatim>\<open>sender\<close> gives no value,
  and no object of the payload has a property of that name.
\<close>

theorem anonymous_creation_hides_sender:
  assumes "createRecognition parseOther db bus newId now userId input = (Inr resp, db', bus')"
  shows "recognitions db' = recognitions db @ [last (recognitions db')]
     \<and> (sender_id (last (recognitions db')) = None) = (visibility input = ''ANONYMOUS'')
     \<and> (visibility input = ''ANONYMOUS'' \<longrightarrow>
          getProp resp ''sender'' = JNull
          \<and> list_all (\<lambda>ev. getField (event_recognition ev) ''id'' = JStr newId
                          \<and> isNullish (getField (event_recognition ev) ''sender'')
                          \<and> \<not> has_key ''sender'' (JObj (snd ev)))
              (new_events bus bus'))"
proof -
  from assms obtain rcp row where
    row: "row = new_row newId now userId input (extractKeywords (Some (message input)))"
    and resp: "resp = formatRecognitionResponse row userId rcp"
    and db': "db' = db\<lparr>recognitions := recognitions db @ [row]\<rparr>"
    and bus': "bus' = sendNotifications parseOther bus row rcp"
    by (rule createRecognition_result)
  have vis: "r_visibility row = visibility input"
    and sid: "sender_id row = (if visibility input = ''ANONYMOUS'' then None else Some userId)"
    and rid: "r_id row = newId"
    and kws: "r_keywords row = extractKeywords (Some (message input))"
    by (simp_all add: row new_row_fields)
  have 1: "recognitions db' = recognitions db @ [last (recognitions db')]"
    by (simp add: db')
  have 2: "(sender_id (last (recognitions db')) = None) = (visibility input = ''ANONYMOUS'')"
    by (simp add: db' sid)
  have 3: "getProp resp ''sender'' = JNull" if "visibility input = ''ANONYMOUS''"
    using that by (simp add: resp formatRecognitionResponse_def getProp_def vis)
  have 4: "list_all (\<lambda>ev. getField (event_recognition ev) ''id'' = JStr newId
                          \<and> isNullish (getField (event_recognition ev) ''sender'')
                          \<and> \<not> has_key ''sender'' (JObj (snd ev)))
              (new_events bus bus')"
  proof (cases "JSON_parse parseOther (join_comma (r_keywords row))")
    case None
    then show ?thesis by (simp add: bus' new_events_sendNotifications)
  next
    case (Some kw)
    with kws have "\<not> has_key ''sender'' kw"
      by (simp add: JSON_parse_keywords_no_key)
    with Some show ?thesis
      by (simp add: bus' new_events_sendNotifications event_recognition_def getField_def
          getProp_def recognitionData_def isNullish_def rid)
  qed
  from 1 2 3 4 show ?thesis by blast
qed

theorem anonymous_creation_hides_sender_witness:
  "createRecognition refusing_parser example_db working_bus ''r2'' 2 ''u1''
       (example_input ''ANONYMOUS'')
     = (Inr (formatRecognitionResponse (created_row ''ANONYMOUS'' ''u1'') ''u1'' jane),
        example_db\<lparr>recognitions := [example_row, created_row ''ANONYMOUS'' ''u1'']\<rparr>,
        sendNotifications refusing_parser working_bus (created_row ''ANONYMOUS'' ''u1'') jane)
   \<and> sender_id (last (recognitions
        (example_db\<lparr>recognitions := [example_row, created_row ''ANONYMOUS'' ''u1'']\<rparr>))) = None
   \<and> getProp (formatRecognitionResponse (created_row ''ANONYMOUS'' ''u1'') ''u1'' jane) ''sender''
       = JNull
   \<and> list_all (\<lambda>ev. getField (event_recognition ev) ''id'' = JStr ''r2''
                    \<and> isNullish (getField (event_recognition ev) ''sender'')
                    \<and> \<not> has_key ''sender'' (JObj (snd ev)))
        (new_events working_bus
           (sendNotifications refusing_parser working_bus (created_row ''ANONYMOUS'' ''u1'') jane))
   \<and> map fst (new_events working_bus
                 (sendNotifications refusing_parser working_bus
                    (created_row ''ANONYMOUS'' ''u1'') jane))
       = [''RECOGNITION_RECEIVED'']"
proof -
  have h: "createRecognition refusing_parser example_db working_bus ''r2'' 2 ''u1''
       (example_input ''ANONYMOUS'')
     = (Inr (formatRecognitionResponse (created_row ''ANONYMOUS'' ''u1'') ''u1'' jane),
        example_db\<lparr>recognitions := [example_row, created_row ''ANONYMOUS'' ''u1'']\<rparr>,
        sendNotifications refusing_parser working_bus (created_row ''ANONYMOUS'' ''u1'') jane)"
    by (rule example_create) (simp_all add: validVisibilities_def)
  have v: "visibility (example_input ''ANONYMOUS'') = ''ANONYMOUS''"
    by (simp add: example_input_def)
  have n: "map fst (new_events working_bus
                 (sendNotifications refusing_parser working_bus
                    (created_row ''ANONYMOUS'' ''u1'') jane))
       = [''RECOGNITION_RECEIVED'']"
    by (simp add: new_events_sendNotifications created_row_parsed working_bus_def
        rejects_none_def) (simp add: created_row_def)
  from anonymous_creation_hides_sender [OF h] h v n show ?thesis by simp
qed

section \<open>Notifications\<close>

text \<open>
  C5.  When the input is valid and the recipient exists, \<^verbatim>\<open>createRecognition\<close> answers
  and stores the same whatever the bus does with the publishes, the same as with a bus
  that rejects nothing: the answer is the success response for the new record, and the
  record is the new last row of the table.
\<close>

theorem publish_failure_is_absorbed:
  assumes "validateRecognitionInput input userId = Inr ()"
    and "validateRecipient db (recipientId input) = Inr rcp"
  shows "fst (createRecognition parseOther db bus newId now userId input)
           = fst (createRecognition parseOther db (bus\<lparr>rejects := rejects_none\<rparr>) newId now
                    userId input)
     \<and> fst (snd (createRecognition parseOther db bus newId now userId input))
           = fst (snd (createRecognition parseOther db (bus\<lparr>rejects := rejects_none\<rparr>) newId
                         now userId input))
     \<and> (\<exists>resp. fst (createRecognition parseOther db bus newId now userId input) = Inr resp
            \<and> getProp resp ''id'' = JStr newId)
     \<and> (\<exists>row. recognitions (fst (snd (createRecognition parseOther db bus newId now userId
                                          input)))
                 = recognitions db @ [row] \<and> r_id row = newId)"
  by (simp add: createRecognition_ok [OF assms] new_row_fields formatRecognitionResponse_def
      getProp_def)

theorem publish_failure_is_absorbed_witness:
  "validateRecognitionInput (example_input ''PUBLIC'') ''u1'' = Inr ()
   \<and> validateRecipient example_db (recipientId (example_input ''PUBLIC'')) = Inr jane
   \<and> rejects failing_bus (published failing_bus)
        (''RECOGNITION_RECEIVED'',
         [(''recognitionReceived'',
           JObj (recognitionData (created_row ''PUBLIC'' ''u1'') (JBool True) jane))])
   \<and> fst (createRecognition refusing_parser example_db failing_bus ''r2'' 2 ''u1''
             (example_input ''PUBLIC''))
       = fst (createRecognition refusing_parser example_db (failing_bus\<lparr>rejects := rejects_none\<rparr>)
                ''r2'' 2 ''u1'' (example_input ''PUBLIC''))
   \<and> fst (snd (createRecognition refusing_parser example_db failing_bus ''r2'' 2 ''u1''
                  (example_input ''PUBLIC'')))
       = fst (snd (createRecognition refusing_parser example_db
                     (failing_bus\<lparr>rejects := rejects_none\<rparr>) ''r2'' 2 ''u1''
                     (example_input ''PUBLIC'')))
   \<and> (\<exists>resp. fst (createRecognition refusing_parser example_db failing_bus ''r2'' 2 ''u1''
                    (example_input ''PUBLIC''))
                = Inr resp \<and> getProp resp ''id'' = JStr ''r2'')
   \<and> (\<exists>row. recognitions (fst (snd (createRecognition refusing_parser example_db failing_bus
                                        ''r2'' 2 ''u1'' (example_input ''PUBLIC''))))
                = recognitions example_db @ [row] \<and> r_id row = ''r2'')"
proof -
  have h1: "validateRecognitionInput (example_input ''PUBLIC'') ''u1'' = Inr ()"
    by (rule example_validate) (simp_all add: validVisibilities_def)
  have h2: "validateRecipient example_db (recipientId (example_input ''PUBLIC'')) = Inr jane"
    by (simp add: example_input_def example_recipient)
  have r: "rejects failing_bus (published failing_bus)
        (''RECOGNITION_RECEIVED'',
         [(''recognitionReceived'',
           JObj (recognitionData (created_row ''PUBLIC'' ''u1'') (JBool True) jane))])"
    by (simp add: failing_bus_def rejects_all_def)
  from publish_failure_is_absorbed [OF h1 h2, of refusing_parser failing_bus "''r2''" 2] h1 h2 r
  show ?thesis by blast
qed

text \<open>
  C6.  In \<^verbatim>\<open>sendNotifications\<close> the keywords of the inserted row go through
  \<^verbatim>\<open>JSON.parse\<close> before anything is published, and the row carries them as an array.
  In the example store the user \<^verbatim>\<open>u1\<close> creates a PUBLIC recognition for \<^verbatim>\<open>u2\<close> with
  the message \<^verbatim>\<open>great collaboration on the campaign\<close>, on a bus that rejects nothing:
  the keywords do not parse, the call succeeds and stores the row, and no event is
  published on either channel.
\<close>

theorem created_but_not_published:
  "createRecognition refusing_parser example_db working_bus ''r2'' 2 ''u1''
       (campaign_input ''PUBLIC'')
     = (Inr (formatRecognitionResponse (campaign_row ''PUBLIC'' ''u1'') ''u1'' jane),
        example_db\<lparr>recognitions := [example_row, campaign_row ''PUBLIC'' ''u1'']\<rparr>,
        working_bus)
   \<and> visibility (campaign_input ''PUBLIC'') = ''PUBLIC''
   \<and> r_keywords (campaign_row ''PUBLIC'' ''u1'') = [''great'', ''collaboration'', ''campaign'']
   \<and> JSON_parse refusing_parser (join_comma (r_keywords (campaign_row ''PUBLIC'' ''u1''))) = None
   \<and> rejects working_bus = rejects_none
   \<and> new_events working_bus working_bus = []"
proof -
  have c: "createRecognition refusing_parser example_db working_bus ''r2'' 2 ''u1''
       (campaign_input ''PUBLIC'')
     = (Inr (formatRecognitionResponse (campaign_row ''PUBLIC'' ''u1'') ''u1'' jane),
        example_db\<lparr>recognitions := [example_row, campaign_row ''PUBLIC'' ''u1'']\<rparr>,
        working_bus)"
    by (rule campaign_create) (simp_all add: validVisibilities_def)
  have v: "visibility (campaign_input ''PUBLIC'') = ''PUBLIC''"
    by (simp add: campaign_input_def)
  have k: "r_keywords (campaign_row ''PUBLIC'' ''u1'') = [''great'', ''collaboration'', ''campaign'']"
    by (simp add: campaign_row_def)
  have b: "rejects working_bus = rejects_none"
    by (simp add: working_bus_def)
  have n: "new_events working_bus working_bus = []"
    by (simp add: new_events_def)
  from c v k campaign_row_unparsed [of refusing_parser "''PUBLIC''" "''u1''"] b n
  show ?thesis by (intro conjI)
qed

text \<open>
  C10.  Two successful \<^verbatim>\<open>createRecognition\<close> calls that differ in the sender only
  leave the bus in the same state, so they publish the same events with the same
  payloads; and no object of a published payload has a property \<^verbatim>\<open>sender\<close>, whatever
  the visibility.
\<close>

theorem fanout_independent_of_sender:
  assumes "createRecognition parseOther db bus newId now u1 input = (Inr resp1, db1, bus1)"
    and "createRecognition parseOther db bus newId now u2 input = (Inr resp2, db2, bus2)"
  shows "bus1 = bus2
     \<and> list_all (\<lambda>ev. \<not> has_key ''sender'' (JObj (snd ev))) (new_events bus bus1)"
proof -
  from assms(1) obtain rcp1 row1 where
    r1: "validateRecipient db (recipientId input) = Inr rcp1"
    and row1: "row1 = new_row newId now u1 input (extractKeywords (Some (message input)))"
    and bus1: "bus1 = sendNotifications parseOther bus row1 rcp1"
    by (rule createRecognition_result)
  from assms(2) obtain rcp2 row2 where
    r2: "validateRecipient db (recipientId input) = Inr rcp2"
    and row2: "row2 = new_row newId now u2 input (extractKeywords (Some (message input)))"
    and bus2: "bus2 = sendNotifications parseOther bus row2 rcp2"
    by (rule createRecognition_result)
  from r1 r2 have rcp: "rcp1 = rcp2" by simp
  have d: "recognitionData row1 kw rcp1 = recognitionData row2 kw rcp2" for kw
    by (simp add: recognitionData_def row1 row2 rcp new_row_def)
  have v: "r_visibility row1 = r_visibility row2"
    and k: "r_keywords row1 = r_keywords row2"
    and kws: "r_keywords row1 = extractKeywords (Some (message input))"
    by (simp_all add: row1 row2 new_row_def)
  have "bus1 = bus2"
    unfolding bus1 bus2 sendNotifications_def d v k by (rule refl)
  moreover have "list_all (\<lambda>ev. \<not> has_key ''sender'' (JObj (snd ev))) (new_events bus bus1)"
  proof (cases "JSON_parse parseOther (join_comma (r_keywords row1))")
    case None
    then show ?thesis by (simp add: bus1 new_events_sendNotifications)
  next
    case (Some kw)
    with kws have "\<not> has_key ''sender'' kw"
      by (simp add: JSON_parse_keywords_no_key)
    with Some show ?thesis
      by (simp add: bus1 new_events_sendNotifications recognitionData_def)
  qed
  ultimately show ?thesis by simp
qed

theorem fanout_independent_of_sender_witness:
  "createRecognition refusing_parser example_db working_bus ''r2'' 2 ''u1''
       (example_input ''PUBLIC'')
     = (Inr (formatRecognitionResponse (created_row ''PUBLIC'' ''u1'') ''u1'' jane),
        example_db\<lparr>recognitions := [example_row, created_row ''PUBLIC'' ''u1'']\<rparr>,
        sendNotifications refusing_parser working_bus (created_row ''PUBLIC'' ''u1'') jane)
   \<and> createRecognition refusing_parser example_db working_bus ''r2'' 2 ''u3''
       (example_input ''PUBLIC'')
     = (Inr (formatRecognitionResponse (created_row ''PUBLIC'' ''u3'') ''u3'' jane),
        example_db\<lparr>recognitions := [example_row, created_row ''PUBLIC'' ''u3'']\<rparr>,
        sendNotifications refusing_parser working_bus (created_row ''PUBLIC'' ''u3'') jane)
   \<and> sendNotifications refusing_parser working_bus (created_row ''PUBLIC'' ''u1'') jane
       = sendNotifications refusing_parser working_bus (created_row ''PUBLIC'' ''u3'') jane
   \<and> list_all (\<lambda>ev. \<not> has_key ''sender'' (JObj (snd ev)))
        (new_events working_bus
           (sendNotifications refusing_parser working_bus (created_row ''PUBLIC'' ''u1'') jane))
   \<and> map fst (new_events working_bus
                 (sendNotifications refusing_parser working_bus
                    (created_row ''PUBLIC'' ''u1'') jane))
       = [''RECOGNITION_RECEIVED'', ''RECOGNITION_CREATED'']
   \<and> getProp (formatRecognitionResponse (created_row ''PUBLIC'' ''u1'') ''u1'' jane) ''sender''
       \<noteq> getProp (formatRecognitionResponse (created_row ''PUBLIC'' ''u3'') ''u3'' jane) ''sender''"
proof -
  have h1: "createRecognition refusing_parser example_db working_bus ''r2'' 2 ''u1''
       (example_input ''PUBLIC'')
     = (Inr (formatRecognitionResponse (created_row ''PUBLIC'' ''u1'') ''u1'' jane),
        example_db\<lparr>recognitions := [example_row, created_row ''PUBLIC'' ''u1'']\<rparr>,
        sendNotifications refusing_parser working_bus (created_row ''PUBLIC'' ''u1'') jane)"
    by (rule example_create) (simp_all add: validVisibilities_def)
  have h2: "createRecognition refusing_parser example_db working_bus ''r2'' 2 ''u3''
       (example_input ''PUBLIC'')
     = (Inr (formatRecognitionResponse (created_row ''PUBLIC'' ''u3'') ''u3'' jane),
        example_db\<lparr>recognitions := [example_row, created_row ''PUBLIC'' ''u3'']\<rparr>,
        sendNotifications refusing_parser working_bus (created_row ''PUBLIC'' ''u3'') jane)"
    by (rule example_create) (simp_all add: validVisibilities_def)
  have n: "map fst (new_events working_bus
                 (sendNotifications refusing_parser working_bus
                    (created_row ''PUBLIC'' ''u1'') jane))
       = [''RECOGNITION_RECEIVED'', ''RECOGNITION_CREATED'']"
    by (simp add: new_events_sendNotifications created_row_parsed working_bus_def
        rejects_none_def) (simp add: created_row_def)
  have d: "getProp (formatRecognitionResponse (created_row ''PUBLIC'' ''u1'') ''u1'' jane) ''sender''
       \<noteq> getProp (formatRecognitionResponse (created_row ''PUBLIC'' ''u3'') ''u3'' jane) ''sender''"
    by (simp add: formatRecognitionResponse_def getProp_def created_row_def)
  note r = fanout_independent_of_sender [OF h1 h2]
  from h1 h2 conjunct1 [OF r] conjunct2 [OF r] n d show ?thesis by (intro conjI)
qed

section \<open>Soft deletion\<close>






lemma deleteRecognition_changes_nothing: "snd (deleteRecognition db rid userId) = db"
  by (simp add: deleteRecognition_def db_set_visibility_def visibility_enum_def
      split: option.splits)


text \<open>
  C2.  No call of \<^verbatim>\<open>updateRecognition\<close> changes the store: it fails before its
  statement, or the store refuses the statement.  \<^verbatim>\<open>createRecognition\<close> with the
  visibility DELETED fails and changes nothing; when it succeeds, the one row it adds
  has the requested visibility, a label of the enumeration.  DELETED is no such label,
  so a store whose rows are within the enumeration stays so.
\<close>

theorem deleted_is_never_assigned:
  "snd (updateRecognition parseOther db userId upd) = db
   \<and> (\<exists>e. fst (updateRecognition parseOther db userId upd) = Inl e)
   \<and> (visibility input = ''DELETED'' \<longrightarrow>
        (\<exists>e. createRecognition parseOther db bus newId now userId input = (Inl e, db, bus)))
   \<and> (createRecognition parseOther db bus newId now userId input = (Inr resp, db', bus') \<longrightarrow>
        recognitions db' = recognitions db @ [last (recognitions db')]
        \<and> r_visibility (last (recognitions db')) = visibility input
        \<and> r_visibility (last (recognitions db')) \<noteq> ''DELETED''
        \<and> (store_typed db \<longrightarrow> store_typed db'))
   \<and> (store_typed db \<longrightarrow>
        list_all (\<lambda>r. r_visibility r \<noteq> ''DELETED'') (recognitions db))"
proof -
  have u: "snd (updateRecognition parseOther db userId upd) = db
      \<and> (\<exists>e. fst (updateRecognition parseOther db userId upd) = Inl e)"
    by (simp add: updateRecognition_def db_update_recognition_def
        split: option.splits sum.splits)
  have c: "\<exists>e. createRecognition parseOther db bus newId now userId input = (Inl e, db, bus)"
    if "visibility input = ''DELETED''"
    using that
    by (auto simp: createRecognition_def validateRecognitionInput_def validateVisibility_def
        validVisibilities_def split: sum.splits)
  have s: "recognitions db' = recognitions db @ [last (recognitions db')]
        \<and> r_visibility (last (recognitions db')) = visibility input
        \<and> r_visibility (last (recognitions db')) \<noteq> ''DELETED''
        \<and> (store_typed db \<longrightarrow> store_typed db')"
    if h: "createRecognition parseOther db bus newId now userId input = (Inr resp, db', bus')"
  proof -
    from h obtain rcp row where
      v: "validateRecognitionInput input userId = Inr ()"
      and row: "row = new_row newId now userId input (extractKeywords (Some (message input)))"
      and db': "db' = db\<lparr>recognitions := recognitions db @ [row]\<rparr>"
      by (rule createRecognition_result)
    from validateRecognitionInput_InrD(2) [OF v]
    have en: "visibility input \<in> set visibility_enum"
      by (simp add: validVisibilities_enum)
    then have nd: "visibility input \<noteq> ''DELETED''"
      by (auto simp: visibility_enum_def)
    from en nd show ?thesis
      by (simp add: db' row new_row_fields store_typed_def)
  qed
  have t: "list_all (\<lambda>r. r_visibility r \<noteq> ''DELETED'') (recognitions db)" if "store_typed db"
    using that by (auto simp: store_typed_def list_all_iff visibility_enum_def)
  from u c s t show ?thesis by blast
qed

theorem deleted_is_never_assigned_witness:
  "updateRecognition refusing_parser example_db ''u1'' delete_by_update
     = (Inl DbUndefinedColumn, example_db)
   \<and> createRecognition refusing_parser example_db working_bus ''r2'' 2 ''u1''
         (example_input ''DELETED'')
       = (Inl InvalidVisibility, example_db, working_bus)
   \<and> store_typed example_db
   \<and> store_typed (example_db\<lparr>recognitions := [example_row, created_row ''PUBLIC'' ''u1'']\<rparr>)
   \<and> r_visibility (last (recognitions
         (example_db\<lparr>recognitions := [example_row, created_row ''PUBLIC'' ''u1'']\<rparr>))) = ''PUBLIC''
   \<and> list_all (\<lambda>r. r_visibility r \<noteq> ''DELETED'') (recognitions example_db)"
proof -
  have u: "updateRecognition refusing_parser example_db ''u1'' delete_by_update
     = (Inl DbUndefinedColumn, example_db)"
    by (simp add: updateRecognition_def delete_by_update_def example_db_def example_row_def
        db_update_recognition_def)
  have v: "visibility (example_input ''DELETED'') = ''DELETED''"
    by (simp add: example_input_def)
  have c: "createRecognition refusing_parser example_db working_bus ''r2'' 2 ''u1''
         (example_input ''DELETED'')
       = (Inl InvalidVisibility, example_db, working_bus)"
    by (simp add: createRecognition_def validateRecognitionInput_def example_input_def
        so_true_valid validateVisibility_def validVisibilities_def)
  have t: "store_typed example_db"
    by (simp add: store_typed_def example_db_def example_row_def visibility_enum_def)
  have h: "createRecognition refusing_parser example_db working_bus ''r2'' 2 ''u1''
       (example_input ''PUBLIC'')
     = (Inr (formatRecognitionResponse (created_row ''PUBLIC'' ''u1'') ''u1'' jane),
        example_db\<lparr>recognitions := [example_row, created_row ''PUBLIC'' ''u1'']\<rparr>,
        sendNotifications refusing_parser working_bus (created_row ''PUBLIC'' ''u1'') jane)"
    by (rule example_create) (simp_all add: validVisibilities_def)
  have p: "visibility (example_input ''PUBLIC'') = ''PUBLIC''"
    by (simp add: example_input_def)
  from deleted_is_never_assigned [where parseOther = refusing_parser and db = example_db
      and userId = "''u1''" and upd = delete_by_update and input = "example_input ''DELETED''"
      and bus = working_bus and newId = "''r2''" and now = 2]
    deleted_is_never_assigned [where parseOther = refusing_parser and db = example_db
      and userId = "''u1''" and input = "example_input ''PUBLIC''"
      and bus = working_bus and newId = "''r2''" and now = 2
      and resp = "formatRecognitionResponse (created_row ''PUBLIC'' ''u1'') ''u1'' jane"
      and db' = "example_db\<lparr>recognitions := [example_row, created_row ''PUBLIC'' ''u1'']\<rparr>"
      and bus' = "sendNotifications refusing_parser working_bus
                    (created_row ''PUBLIC'' ''u1'') jane"]
    u v c t h p
  show ?thesis by simp
qed

end
